theory Spec2Isabelle
  imports Complex_Main
begin

section \<open>Strings\<close>

text \<open>
  A Python \<^verbatim>\<open>str\<close> is a \<^typ>\<open>string\<close> whose characters are read as the code points
  below 256. The character classes are the ones Python uses on that range:
  \<^verbatim>\<open>str.isspace\<close> and the pattern \<^verbatim>\<open>\s\<close> accept the code points 9-13, 28-32, 133
  and 160; the pattern \<^verbatim>\<open>\d\<close> accepts 0-9 only, while \<^verbatim>\<open>str.isdigit\<close> also accepts
  the superscripts 178, 179 and 185, on which \<^verbatim>\<open>int\<close> raises ValueError.
\<close>

datatype py_exn = TypeError | ValueError | EOFError | IntegrityError | OverflowError

definition is_space :: "char \<Rightarrow> bool" where
  "is_space c = (of_char c \<in> set [9, 10, 11, 12, 13, 28, 29, 30, 31, 32, 133, 160 :: nat])"

definition is_digit :: "char \<Rightarrow> bool" where
  "is_digit c = (48 \<le> (of_char c :: nat) \<and> (of_char c :: nat) \<le> 57)"

definition is_upper :: "char \<Rightarrow> bool" where
  "is_upper c = (65 \<le> (of_char c :: nat) \<and> (of_char c :: nat) \<le> 90)"

definition is_lower :: "char \<Rightarrow> bool" where
  "is_lower c = (97 \<le> (of_char c :: nat) \<and> (of_char c :: nat) \<le> 122)"

definition is_letter :: "char \<Rightarrow> bool" where
  "is_letter c = (is_upper c \<or> is_lower c)"

definition not_newline :: "char \<Rightarrow> bool" where
  "not_newline c = (c \<noteq> CHR 0x0A)"

definition one_of :: "string \<Rightarrow> char \<Rightarrow> bool" where
  "one_of cs c = (c \<in> set cs)"

definition py_strip :: "string \<Rightarrow> string" where
  "py_strip s = rev (dropWhile is_space (rev (dropWhile is_space s)))"

definition lower_char :: "char \<Rightarrow> char" where
  "lower_char c = (let n = (of_char c :: nat) in
     if (65 \<le> n \<and> n \<le> 90) \<or> (192 \<le> n \<and> n \<le> 222 \<and> n \<noteq> 215)
     then char_of (n + 32) else c)"

definition py_lower :: "string \<Rightarrow> string" where
  "py_lower s = map lower_char s"

definition str_isdigit :: "string \<Rightarrow> bool" where
  "str_isdigit s = (s \<noteq> [] \<and> list_all (\<lambda>c. is_digit c \<or> of_char c \<in> set [178, 179, 185 :: nat]) s)"

definition py_int :: "string \<Rightarrow> py_exn + int" where
  "py_int s = (if s \<noteq> [] \<and> list_all is_digit s
     then Inr (foldl (\<lambda>a c. 10 * a + (int (of_char c) - 48)) 0 s)
     else Inl ValueError)"

function str_nat :: "nat \<Rightarrow> string" where
  "str_nat n = (if n < 10 then [char_of (48 + n)]
     else str_nat (n div 10) @ [char_of (48 + n mod 10)])"
  by pat_completeness auto
termination
  by (relation "measure id") auto

declare str_nat.simps [simp del]

definition str_int :: "int \<Rightarrow> string" where
  "str_int i = (if i < 0 then CHR ''-'' # str_nat (nat (- i)) else str_nat (nat i))"

section \<open>Regular expressions\<close>

text \<open>
  The three patterns of the source are values of \<open>rexp\<close>, transcribed item by item.
  \<open>matches\<close> decides whether the whole string is in the pattern's language, by
  derivatives (\<open>alt\<close> and \<open>seq\<close> are \<open>Plus\<close> and \<open>Times\<close> that drop a dead branch);
  \<open>re_match\<close> is \<^verbatim>\<open>bool(PATTERN.match(s))\<close> for a pattern written \<^verbatim>\<open>^...$\<close>: Python's
  \<^verbatim>\<open>$\<close> matches at the end of the string and also just before a newline that ends the
  string.
\<close>

datatype rexp = Zero | One | Atom "char \<Rightarrow> bool" | Plus rexp rexp | Times rexp rexp | Star rexp

fun nullable :: "rexp \<Rightarrow> bool" where
  "nullable Zero = False"
| "nullable One = True"
| "nullable (Atom P) = False"
| "nullable (Plus r s) = (nullable r \<or> nullable s)"
| "nullable (Times r s) = (nullable r \<and> nullable s)"
| "nullable (Star r) = True"

fun alt :: "rexp \<Rightarrow> rexp \<Rightarrow> rexp" where
  "alt Zero s = s"
| "alt r Zero = r"
| "alt r s = Plus r s"

fun seq :: "rexp \<Rightarrow> rexp \<Rightarrow> rexp" where
  "seq Zero s = Zero"
| "seq One s = s"
| "seq r s = Times r s"

fun deriv :: "char \<Rightarrow> rexp \<Rightarrow> rexp" where
  "deriv c Zero = Zero"
| "deriv c One = Zero"
| "deriv c (Atom P) = (if P c then One else Zero)"
| "deriv c (Plus r s) = alt (deriv c r) (deriv c s)"
| "deriv c (Times r s) =
     (if nullable r then alt (seq (deriv c r) s) (deriv c s) else seq (deriv c r) s)"
| "deriv c (Star r) = seq (deriv c r) (Star r)"

fun matches :: "rexp \<Rightarrow> string \<Rightarrow> bool" where
  "matches r [] = nullable r"
| "matches r (c # cs) = matches (deriv c r) cs"

definition re_match :: "rexp \<Rightarrow> string \<Rightarrow> bool" where
  "re_match r s =
     (matches r s \<or> (s \<noteq> [] \<and> last s = CHR 0x0A \<and> matches r (butlast s)))"

definition rx_plus :: "rexp \<Rightarrow> rexp" where
  "rx_plus r = Times r (Star r)"

definition rx_opt :: "rexp \<Rightarrow> rexp" where
  "rx_opt r = Plus r One"

fun rx_rep :: "nat \<Rightarrow> rexp \<Rightarrow> rexp" where
  "rx_rep 0 r = One"
| "rx_rep (Suc n) r = Times r (rx_rep n r)"

fun rx_seq :: "rexp list \<Rightarrow> rexp" where
  "rx_seq [] = One"
| "rx_seq (r # rs) = Times r (rx_seq rs)"

text \<open>\<^verbatim>\<open>^\d+\s+.+,\s*[A-Za-z .]+,\s*[A-Z]{2}\s+\d{5}$\<close>\<close>

definition ADDRESS_REGEX :: rexp where
  "ADDRESS_REGEX = rx_seq
     [rx_plus (Atom is_digit), rx_plus (Atom is_space), rx_plus (Atom not_newline),
      Atom (one_of '',''), Star (Atom is_space),
      rx_plus (Atom (\<lambda>c. is_letter c \<or> one_of '' .'' c)),
      Atom (one_of '',''), Star (Atom is_space),
      rx_rep 2 (Atom is_upper), rx_plus (Atom is_space), rx_rep 5 (Atom is_digit)]"

text \<open>\<^verbatim>\<open>^\s*(\(\d{3}\)|\d{3})[-\s.]?\d{3}[-\s.]?\d{4}\s*$\<close>\<close>

definition PHONE_REGEX :: rexp where
  "PHONE_REGEX = rx_seq
     [Star (Atom is_space),
      Plus (rx_seq [Atom (one_of ''(''), rx_rep 3 (Atom is_digit), Atom (one_of '')'')])
           (rx_rep 3 (Atom is_digit)),
      rx_opt (Atom (\<lambda>c. one_of ''-.'' c \<or> is_space c)), rx_rep 3 (Atom is_digit),
      rx_opt (Atom (\<lambda>c. one_of ''-.'' c \<or> is_space c)), rx_rep 4 (Atom is_digit),
      Star (Atom is_space)]"

text \<open>\<^verbatim>\<open>^[A-Za-z0-9._%+-]+@[A-Za-z0-9.-]+\.[A-Za-z]{2,}$\<close>\<close>

definition EMAIL_REGEX :: rexp where
  "EMAIL_REGEX = rx_seq
     [rx_plus (Atom (\<lambda>c. is_letter c \<or> is_digit c \<or> one_of ''._%+-'' c)),
      Atom (one_of ''@''),
      rx_plus (Atom (\<lambda>c. is_letter c \<or> is_digit c \<or> one_of ''.-'' c)),
      Atom (one_of ''.''),
      rx_rep 2 (Atom is_letter), Star (Atom is_letter)]"

section \<open>Cells of a data frame and the field validators\<close>

text \<open>
  A cell of the frame that \<^verbatim>\<open>pd.read_csv\<close> returns is a missing value, a string, an
  integer, a finite float (a rational here) or a boolean. The validators take any cell:
  \<^verbatim>\<open>re.match\<close> raises TypeError on a value that is not a string, and nothing in
  \<^verbatim>\<open>import_csv\<close> catches it.
\<close>

datatype cell = NaN | Str string | Intg int | Flt rat | Bool bool

definition validate_address :: "cell \<Rightarrow> py_exn + bool" where
  "validate_address address =
     (case address of Str s \<Rightarrow> Inr (re_match ADDRESS_REGEX s) | _ \<Rightarrow> Inl TypeError)"

definition validate_phone :: "cell \<Rightarrow> py_exn + bool" where
  "validate_phone phone =
     (case phone of
        NaN \<Rightarrow> Inr True
      | Str s \<Rightarrow> if py_strip s = [] then Inr True else Inr (re_match PHONE_REGEX s)
      | _ \<Rightarrow> Inl TypeError)"

definition validate_email :: "cell \<Rightarrow> py_exn + bool" where
  "validate_email email =
     (case email of
        NaN \<Rightarrow> Inr True
      | Str s \<Rightarrow> if py_strip s = [] then Inr True else Inr (re_match EMAIL_REGEX s)
      | _ \<Rightarrow> Inl TypeError)"

text \<open>
  \<^verbatim>\<open>boolean_converter\<close>: \<^verbatim>\<open>astype(str)\<close>, \<^verbatim>\<open>strip\<close>, \<^verbatim>\<open>lower\<close>, then \<^verbatim>\<open>Series.map\<close>
  with the dictionary of the source. \<^verbatim>\<open>Series.map\<close> gives NaN for a key the dictionary
  lacks and for a key it maps to None, and the numbers come back as floats. The text of a
  float always has a point, an exponent or \<^verbatim>\<open>inf\<close>, so it is never a key: \<open>astype_str\<close>
  gives None for it.
\<close>

definition astype_str :: "cell \<Rightarrow> string option" where
  "astype_str c =
     (case c of
        NaN \<Rightarrow> Some ''nan''
      | Str s \<Rightarrow> Some s
      | Intg i \<Rightarrow> Some (str_int i)
      | Flt q \<Rightarrow> None
      | Bool b \<Rightarrow> Some (if b then ''True'' else ''False''))"

definition boolean_table :: "(string \<times> int option) list" where
  "boolean_table =
     [(''yes'', Some 1), (''y'', Some 1), (''true'', Some 1), (''1'', Some 1),
      (''no'', Some 0), (''n'', Some 0), (''false'', Some 0), (''0'', Some 0),
      ('''', None), (''nan'', None)]"

definition series_map :: "(string \<times> int option) list \<Rightarrow> string \<Rightarrow> cell" where
  "series_map table key =
     (case map_of table key of
        None \<Rightarrow> NaN
      | Some None \<Rightarrow> NaN
      | Some (Some i) \<Rightarrow> Flt (of_int i))"

definition boolean_converter_cell :: "cell \<Rightarrow> cell" where
  "boolean_converter_cell c =
     (case astype_str c of
        None \<Rightarrow> NaN
      | Some s \<Rightarrow> series_map boolean_table (py_lower (py_strip s)))"

definition boolean_converter :: "cell list \<Rightarrow> cell list" where
  "boolean_converter csv_boolean_data = map boolean_converter_cell csv_boolean_data"

section \<open>The households table\<close>

text \<open>
  A stored value has one of SQLite's storage classes; the same type stands for the Python
  value handed to the driver (None, an int, a float, a str). A time stamp is the wall
  clock in whole seconds: \<^verbatim>\<open>isoformat(timespec="seconds")\<close> renders it, one text for
  each second, in an order-preserving way.
\<close>

datatype sqlval = NULL | INTEGER int | REAL rat | TEXT string

record 'v fields =
  address :: 'v
  adults :: 'v
  children :: 'v
  pets :: 'v
  dogs :: 'v
  critical_meds :: 'v
  meds_need_refrigerated :: 'v
  has_special_needs :: 'v
  has_propane_tank :: 'v
  has_natural_gas :: 'v
  phone :: 'v
  email :: 'v
  has_medical_training :: 'v
  know_neighbors :: 'v
  has_neighbors_key :: 'v
  wants_newsletter :: 'v
  can_cert_contact :: 'v

record household =
  rec_id :: nat
  data :: "sqlval fields"
  created_at :: nat
  updated_at :: nat

definition CSV_COLUMNS :: "string list" where
  "CSV_COLUMNS =
     [''address'', ''adults'', ''children'', ''pets'', ''dogs'', ''critical_meds'',
      ''meds_need_refrigerated'', ''has_special_needs'', ''has_propane_tank'',
      ''has_natural_gas'', ''phone'', ''email'', ''has_medical_training'', ''know_neighbors'',
      ''has_neighbors_key'', ''wants_newsletter'', ''can_cert_contact'']"

definition values_list :: "'v fields \<Rightarrow> 'v list" where
  "values_list r =
     [address r, adults r, children r, pets r, dogs r, critical_meds r,
      meds_need_refrigerated r, has_special_needs r, has_propane_tank r, has_natural_gas r,
      phone r, email r, has_medical_training r, know_neighbors r, has_neighbors_key r,
      wants_newsletter r, can_cert_contact r]"

definition map_fields :: "('a \<Rightarrow> 'b) \<Rightarrow> 'a fields \<Rightarrow> 'b fields" where
  "map_fields f r =
     \<lparr>address = f (address r), adults = f (adults r), children = f (children r),
      pets = f (pets r), dogs = f (dogs r), critical_meds = f (critical_meds r),
      meds_need_refrigerated = f (meds_need_refrigerated r),
      has_special_needs = f (has_special_needs r),
      has_propane_tank = f (has_propane_tank r), has_natural_gas = f (has_natural_gas r),
      phone = f (phone r), email = f (email r),
      has_medical_training = f (has_medical_training r),
      know_neighbors = f (know_neighbors r), has_neighbors_key = f (has_neighbors_key r),
      wants_newsletter = f (wants_newsletter r), can_cert_contact = f (can_cert_contact r)\<rparr>"

text \<open>
  Binding a parameter: the driver raises OverflowError on an int outside 64 bits.
  Storing it: a column declared INTEGER turns a REAL with an integral value into an
  INTEGER and keeps a text that is no number as TEXT (the empty string is the only text
  this program sends to such a column); the columns address, phone and email are
  declared TEXT and receive only text or NULL.
\<close>

definition bindable :: "sqlval \<Rightarrow> bool" where
  "bindable v = (case v of INTEGER i \<Rightarrow> - (2 ^ 63) \<le> i \<and> i < 2 ^ 63 | _ \<Rightarrow> True)"

definition integer_affinity :: "sqlval \<Rightarrow> sqlval" where
  "integer_affinity v =
     (case v of
        REAL q \<Rightarrow>
          if of_int \<lfloor>q\<rfloor> = q \<and> - (2 ^ 63) \<le> \<lfloor>q\<rfloor> \<and> \<lfloor>q\<rfloor> < 2 ^ 63 then INTEGER \<lfloor>q\<rfloor> else REAL q
      | _ \<Rightarrow> v)"

definition column_affinity :: "sqlval fields \<Rightarrow> sqlval fields" where
  "column_affinity r =
     (map_fields integer_affinity r)\<lparr>address := address r, phone := phone r, email := email r\<rparr>"

text \<open>The columns that \<^verbatim>\<open>init_db\<close> declares NOT NULL.\<close>

definition not_null_ok :: "sqlval fields \<Rightarrow> bool" where
  "not_null_ok r =
     (NULL \<notin> set [address r, adults r, children r, pets r, critical_meds r,
        has_special_needs r, has_propane_tank r, has_natural_gas r])"

text \<open>AUTOINCREMENT: one more than the largest id of the table (no row is ever deleted).\<close>

definition next_id :: "household list \<Rightarrow> nat" where
  "next_id db = Suc (foldr max (map rec_id db) 0)"

text \<open>\<^verbatim>\<open>INSERT INTO households (...) VALUES (...)\<close> with both time stamps.\<close>

definition sql_insert ::
  "sqlval fields \<Rightarrow> nat \<Rightarrow> nat \<Rightarrow> household list \<Rightarrow> py_exn + household list" where
  "sql_insert vals created updated db =
     (if \<not> list_all bindable (values_list vals) then Inl OverflowError
      else if \<not> not_null_ok (column_affinity vals) then Inl IntegrityError
      else Inr (db @ [\<lparr>rec_id = next_id db, data = column_affinity vals,
                       created_at = created, updated_at = updated\<rparr>]))"

text \<open>\<^verbatim>\<open>SELECT * FROM households WHERE id=?\<close>\<close>

definition sql_select :: "nat \<Rightarrow> household list \<Rightarrow> household option" where
  "sql_select record_id db = find (\<lambda>h. rec_id h = record_id) db"

text \<open>
  \<^verbatim>\<open>UPDATE households SET ... WHERE id = ?\<close>: the seventeen data columns and
  \<^verbatim>\<open>updated_at\<close>; \<^verbatim>\<open>created_at\<close> is not in the SET list.
\<close>

definition sql_update ::
  "nat \<Rightarrow> sqlval fields \<Rightarrow> nat \<Rightarrow> household list \<Rightarrow> py_exn + household list" where
  "sql_update record_id vals updated db =
     (if \<not> list_all bindable (values_list vals) then Inl OverflowError
      else if sql_select record_id db \<noteq> None \<and> \<not> not_null_ok (column_affinity vals)
        then Inl IntegrityError
      else Inr (map (\<lambda>h. if rec_id h = record_id
                          then h\<lparr>data := column_affinity vals, updated_at := updated\<rparr>
                          else h) db))"

section \<open>Batch import\<close>

text \<open>
  The model starts from the frame that \<^verbatim>\<open>pd.read_csv\<close> returned: its column labels and
  its rows. A column is named by its reader and its updater, so that
  \<^verbatim>\<open>input_df[column]\<close> is \<open>col_get\<close> and \<^verbatim>\<open>input_df[column] = values\<close> is
  \<open>col_set\<close>.
\<close>

record dataframe =
  columns :: "string list"
  rows :: "cell fields list"

type_synonym column = "(cell fields \<Rightarrow> cell) \<times> ((cell \<Rightarrow> cell) \<Rightarrow> cell fields \<Rightarrow> cell fields)"

definition col_get :: "cell fields list \<Rightarrow> column \<Rightarrow> cell list" where
  "col_get df col = map (fst col) df"

definition col_set :: "cell fields list \<Rightarrow> column \<Rightarrow> cell list \<Rightarrow> cell fields list" where
  "col_set df col vals = map2 (\<lambda>v r. snd col (\<lambda>_. v) r) vals df"

text \<open>A list of results is the list of the values, or the first exception raised.\<close>

fun collect :: "('e + 'a) list \<Rightarrow> 'e + 'a list" where
  "collect [] = Inr []"
| "collect (x # xs) =
     (case x of
        Inl e \<Rightarrow> Inl e
      | Inr v \<Rightarrow> (case collect xs of Inl e \<Rightarrow> Inl e | Inr vs \<Rightarrow> Inr (v # vs)))"

definition series_apply :: "(cell \<Rightarrow> py_exn + bool) \<Rightarrow> cell list \<Rightarrow> py_exn + bool list" where
  "series_apply f series = collect (map f series)"

text \<open>\<^verbatim>\<open>input_df[mask]\<close> restricted to some columns: the selected rows with their index.\<close>

definition select_rows :: "bool list \<Rightarrow> 'a list \<Rightarrow> (nat \<times> 'a) list" where
  "select_rows flags xs =
     map (\<lambda>(i, m, x). (i, x)) (filter (\<lambda>(i, m, x). m) (enumerate 0 (zip flags xs)))"

text \<open>
  \<^verbatim>\<open>pd.to_numeric(series, errors="raise")\<close> keeps a number, a boolean and a missing
  value, and parses a string; which strings it reads as numbers is left to the
  parameter \<open>numeric\<close>.
\<close>

definition to_numeric :: "(string \<Rightarrow> rat option) \<Rightarrow> cell list \<Rightarrow> py_exn + cell list" where
  "to_numeric numeric series =
     collect (map (\<lambda>c. case c of
                          Str s \<Rightarrow> (case numeric s of None \<Rightarrow> Inl ValueError | Some q \<Rightarrow> Inr (Flt q))
                        | _ \<Rightarrow> Inr c) series)"

definition boolean_data :: "column list" where
  "boolean_data =
     [(pets, pets_update), (dogs, dogs_update), (critical_meds, critical_meds_update),
      (meds_need_refrigerated, meds_need_refrigerated_update),
      (has_special_needs, has_special_needs_update),
      (has_propane_tank, has_propane_tank_update),
      (has_natural_gas, has_natural_gas_update),
      (has_medical_training, has_medical_training_update),
      (know_neighbors, know_neighbors_update),
      (has_neighbors_key, has_neighbors_key_update),
      (wants_newsletter, wants_newsletter_update),
      (can_cert_contact, can_cert_contact_update)]"

text \<open>\<^verbatim>\<open>series == 0\<close> and \<^verbatim>\<open>series.notna()\<close> on one cell.\<close>

definition eq_zero :: "cell \<Rightarrow> bool" where
  "eq_zero c = (c = Flt 0 \<or> c = Intg 0 \<or> c = Bool False)"

definition notna :: "cell \<Rightarrow> bool" where
  "notna c = (c \<noteq> NaN)"

text \<open>\<^verbatim>\<open>values.tolist()\<close>: the Python value of a cell, as the driver receives it.\<close>

definition tolist_cell :: "cell \<Rightarrow> sqlval" where
  "tolist_cell c =
     (case c of
        NaN \<Rightarrow> NULL
      | Str s \<Rightarrow> TEXT s
      | Intg i \<Rightarrow> INTEGER i
      | Flt q \<Rightarrow> REAL q
      | Bool b \<Rightarrow> INTEGER (if b then 1 else 0))"

text \<open>
  \<^verbatim>\<open>executemany\<close> inserts row after row inside one transaction; an exception leaves
  the transaction uncommitted.
\<close>

fun executemany :: "sqlval fields list \<Rightarrow> nat \<Rightarrow> household list \<Rightarrow> py_exn + household list" where
  "executemany [] time_stamp db = Inr db"
| "executemany (r # rs) time_stamp db =
     (case sql_insert r time_stamp time_stamp db of
        Inl e \<Rightarrow> Inl e
      | Inr db' \<Rightarrow> executemany rs time_stamp db')"

datatype import_result =
    Imported
  | MissingColumns "string list"
  | AddressNotFormatted "(nat \<times> cell) list"
  | PhoneNotFormatted "(nat \<times> cell) list"
  | EmailNotFormatted "(nat \<times> cell) list"
  | AdultsChildrenNotFormatted py_exn
  | DogsButNoPets "(nat \<times> cell \<times> cell) list"
  | RefrigeratedButNoMeds "(nat \<times> cell \<times> cell) list"
  | Uncaught py_exn

text \<open>
  \<^verbatim>\<open>import_csv\<close>, from the check of the columns on. The result is what the function
  printed (or the exception it let through) and the committed table.
\<close>

definition import_csv ::
  "(string \<Rightarrow> rat option) \<Rightarrow> dataframe \<Rightarrow> nat \<Rightarrow> household list
     \<Rightarrow> import_result \<times> household list" where
  "import_csv numeric input_df time_stamp db =
     (let missing_columns = filter (\<lambda>column. column \<notin> set (columns input_df)) CSV_COLUMNS;
          df = rows input_df
      in
      if missing_columns \<noteq> [] then (MissingColumns missing_columns, db) else
      (case series_apply validate_address (col_get df (address, address_update)) of
        Inl e \<Rightarrow> (Uncaught e, db)
      | Inr valid_address \<Rightarrow>
      if select_rows (map Not valid_address) (col_get df (address, address_update)) \<noteq> []
      then (AddressNotFormatted
              (select_rows (map Not valid_address) (col_get df (address, address_update))), db) else
      (case series_apply validate_phone (col_get df (phone, phone_update)) of
        Inl e \<Rightarrow> (Uncaught e, db)
      | Inr valid_phone \<Rightarrow>
      if select_rows (map Not valid_phone) (col_get df (phone, phone_update)) \<noteq> []
      then (PhoneNotFormatted
              (select_rows (map Not valid_phone) (col_get df (phone, phone_update))), db) else
      (case series_apply validate_email (col_get df (email, email_update)) of
        Inl e \<Rightarrow> (Uncaught e, db)
      | Inr valid_email \<Rightarrow>
      if select_rows (map Not valid_email) (col_get df (email, email_update)) \<noteq> []
      then (EmailNotFormatted
              (select_rows (map Not valid_email) (col_get df (email, email_update))), db) else
      (case to_numeric numeric (col_get df (adults, adults_update)) of
        Inl e \<Rightarrow> (AdultsChildrenNotFormatted e, db)
      | Inr adults_numeric \<Rightarrow>
      (case to_numeric numeric (col_get (col_set df (adults, adults_update) adults_numeric)
                                  (children, children_update)) of
        Inl e \<Rightarrow> (AdultsChildrenNotFormatted e, db)
      | Inr children_numeric \<Rightarrow>
      (let df = col_set (col_set df (adults, adults_update) adults_numeric)
                  (children, children_update) children_numeric;
           df = foldl (\<lambda>df column. col_set df column (boolean_converter (col_get df column)))
                  df boolean_data;
           invalid_dogs_input =
             select_rows (map (\<lambda>r. eq_zero (pets r) \<and> notna (dogs r)) df)
               (map (\<lambda>r. (pets r, dogs r)) df);
           invalid_refrigerated_meds_input =
             select_rows
               (map (\<lambda>r. eq_zero (critical_meds r) \<and> notna (meds_need_refrigerated r)) df)
               (map (\<lambda>r. (critical_meds r, meds_need_refrigerated r)) df)
       in
       if invalid_dogs_input \<noteq> [] then (DogsButNoPets invalid_dogs_input, db) else
       if invalid_refrigerated_meds_input \<noteq> []
       then (RefrigeratedButNoMeds invalid_refrigerated_meds_input, db) else
       (case executemany (map (map_fields tolist_cell) df) time_stamp db of
         Inl e \<Rightarrow> (Uncaught e, db)
       | Inr db' \<Rightarrow> (Imported, db')))))))))"

section \<open>Interactive prompts\<close>

text \<open>
  The user's input is the list of the lines that \<^verbatim>\<open>input()\<close> returns, in order; at its
  end \<^verbatim>\<open>input()\<close> raises EOFError. A function that prompts takes the lines left and
  returns its result with the lines it did not read. What is printed is left out.
\<close>

type_synonym 'a prompting = "string list \<Rightarrow> (py_exn + 'a) \<times> string list"

definition ret :: "'a \<Rightarrow> 'a prompting" where
  "ret x lines = (Inr x, lines)"

definition bnd :: "'a prompting \<Rightarrow> ('a \<Rightarrow> 'b prompting) \<Rightarrow> 'b prompting" where
  "bnd m f lines = (case m lines of (Inl e, rest) \<Rightarrow> (Inl e, rest) | (Inr x, rest) \<Rightarrow> f x rest)"

fun edit_prompt_and_validation ::
  "string \<Rightarrow> sqlval \<Rightarrow> string \<Rightarrow> bool \<Rightarrow> sqlval prompting" where
  "edit_prompt_and_validation prompt current_value value_type mandatory [] = (Inl EOFError, [])"
| "edit_prompt_and_validation prompt current_value value_type mandatory (line # rest) =
     (let input_value =
            (if value_type = ''bool'' then py_lower (py_strip line) else py_strip line)
      in
      if input_value = [] then
        (if mandatory
         then edit_prompt_and_validation prompt current_value value_type mandatory rest
         else (Inr current_value, rest))
      else if value_type = ''bool'' then
        (if input_value \<in> set [''yes'', ''y'', ''true'', ''1''] then (Inr (INTEGER 1), rest)
         else if input_value \<in> set [''no'', ''n'', ''false'', ''0''] then (Inr (INTEGER 0), rest)
         else edit_prompt_and_validation prompt current_value value_type mandatory rest)
      else if value_type = ''int'' then
        (if str_isdigit input_value
         then (case py_int input_value of
                 Inl e \<Rightarrow> (Inl e, rest)
               | Inr i \<Rightarrow> (Inr (INTEGER i), rest))
         else edit_prompt_and_validation prompt current_value value_type mandatory rest)
      else if value_type = ''str'' then
        (if py_lower prompt = ''address'' \<and> validate_address (Str input_value) = Inr False
         then edit_prompt_and_validation prompt current_value value_type mandatory rest
         else if py_lower prompt = ''phone number''
                 \<and> validate_phone (Str input_value) = Inr False
         then edit_prompt_and_validation prompt current_value value_type mandatory rest
         else if py_lower prompt = ''email address''
                 \<and> validate_email (Str input_value) = Inr False
         then edit_prompt_and_validation prompt current_value value_type mandatory rest
         else (Inr (TEXT input_value), rest))
      else edit_prompt_and_validation prompt current_value value_type mandatory rest)"

text \<open>\<^verbatim>\<open>value == 1\<close> on a Python value.\<close>

definition py_eq_one :: "sqlval \<Rightarrow> bool" where
  "py_eq_one v = (v = INTEGER 1 \<or> v = REAL 1)"

text \<open>
  The loop over the collected values before the statement: a missing value becomes
  None, a numpy scalar becomes the Python value it holds.
\<close>

definition pd_isna :: "sqlval \<Rightarrow> bool" where
  "pd_isna v = (v = NULL)"

definition native :: "sqlval \<Rightarrow> sqlval" where
  "native v = (if pd_isna v then NULL else v)"

definition add_prompts :: "sqlval fields prompting" where
  "add_prompts =
     bnd (edit_prompt_and_validation ''Address'' (TEXT '''') ''str'' True) (\<lambda>address.
     bnd (edit_prompt_and_validation ''Number of adults'' (TEXT '''') ''int'' True) (\<lambda>adults.
     bnd (edit_prompt_and_validation ''Number of children'' (TEXT '''') ''int'' True) (\<lambda>children.
     bnd (edit_prompt_and_validation ''Any pets?'' (TEXT '''') ''bool'' True) (\<lambda>pets.
     bnd (if py_eq_one pets
          then edit_prompt_and_validation ''Any dogs?'' (TEXT '''') ''bool'' False
          else ret NULL) (\<lambda>dogs.
     bnd (edit_prompt_and_validation ''Any critical meds?'' (TEXT '''') ''bool'' True) (\<lambda>critical_meds.
     bnd (if py_eq_one critical_meds
          then edit_prompt_and_validation ''Medication needs to be refrigerated?'' (TEXT '''') ''bool'' False
          else ret NULL) (\<lambda>meds_need_refrigerated.
     bnd (edit_prompt_and_validation ''Special needs?'' (TEXT '''') ''bool'' True) (\<lambda>has_special_needs.
     bnd (edit_prompt_and_validation ''Large propane tank?'' (TEXT '''') ''bool'' True) (\<lambda>has_propane_tank.
     bnd (edit_prompt_and_validation ''Natural gas connection?'' (TEXT '''') ''bool'' True) (\<lambda>has_natural_gas.
     bnd (edit_prompt_and_validation ''Phone number'' (TEXT '''') ''str'' False) (\<lambda>phone.
     bnd (edit_prompt_and_validation ''Email address'' (TEXT '''') ''str'' False) (\<lambda>email.
     bnd (edit_prompt_and_validation ''Any Medical training?'' (TEXT '''') ''bool'' False) (\<lambda>has_medical_training.
     bnd (edit_prompt_and_validation ''Know neighbors?'' (TEXT '''') ''bool'' False) (\<lambda>know_neighbors.
     bnd (edit_prompt_and_validation ''Have neighbor's key?'' (TEXT '''') ''bool'' False) (\<lambda>has_neighbors_key.
     bnd (edit_prompt_and_validation ''CERT newsletter?'' (TEXT '''') ''bool'' False) (\<lambda>wants_newsletter.
     bnd (edit_prompt_and_validation ''Allow CERT non-disaster contact?'' (TEXT '''') ''bool'' False) (\<lambda>can_cert_contact.
     ret
       \<lparr>address = address, adults = adults, children = children, pets = pets, dogs = dogs,
        critical_meds = critical_meds, meds_need_refrigerated = meds_need_refrigerated,
        has_special_needs = has_special_needs, has_propane_tank = has_propane_tank,
        has_natural_gas = has_natural_gas, phone = phone, email = email,
        has_medical_training = has_medical_training, know_neighbors = know_neighbors,
        has_neighbors_key = has_neighbors_key, wants_newsletter = wants_newsletter,
        can_cert_contact = can_cert_contact\<rparr>)))))))))))))))))"

definition add_record ::
  "string list \<Rightarrow> nat \<Rightarrow> household list \<Rightarrow> (py_exn + unit) \<times> household list \<times> string list" where
  "add_record lines timestamp db =
     (case add_prompts lines of
        (Inl e, rest) \<Rightarrow> (Inl e, db, rest)
      | (Inr new_record, rest) \<Rightarrow>
          (case sql_insert (map_fields native new_record) timestamp timestamp db of
             Inl e \<Rightarrow> (Inl e, db, rest)
           | Inr db' \<Rightarrow> (Inr (), db', rest)))"

definition edit_prompts :: "sqlval fields \<Rightarrow> sqlval fields prompting" where
  "edit_prompts series =
     bnd (edit_prompt_and_validation ''Address'' (address series) ''str'' False) (\<lambda>address.
     bnd (edit_prompt_and_validation ''Number of adults'' (adults series) ''int'' False) (\<lambda>adults.
     bnd (edit_prompt_and_validation ''Number of children'' (children series) ''int'' False) (\<lambda>children.
     bnd (edit_prompt_and_validation ''Any pets?'' (pets series) ''bool'' False) (\<lambda>pets.
     bnd (if py_eq_one pets
          then edit_prompt_and_validation ''Any dogs?'' (dogs series) ''bool'' False
          else ret NULL) (\<lambda>dogs.
     bnd (edit_prompt_and_validation ''Any critical meds?'' (critical_meds series) ''bool'' False) (\<lambda>critical_meds.
     bnd (if py_eq_one critical_meds
          then edit_prompt_and_validation ''Medication needs to be refrigerated?'' (meds_need_refrigerated series) ''bool'' False
          else ret NULL) (\<lambda>meds_need_refrigerated.
     bnd (edit_prompt_and_validation ''Special needs?'' (has_special_needs series) ''bool'' False) (\<lambda>has_special_needs.
     bnd (edit_prompt_and_validation ''Large propane tank?'' (has_propane_tank series) ''bool'' False) (\<lambda>has_propane_tank.
     bnd (edit_prompt_and_validation ''Natural gas connection?'' (has_natural_gas series) ''bool'' False) (\<lambda>has_natural_gas.
     bnd (edit_prompt_and_validation ''Phone number'' (phone series) ''str'' False) (\<lambda>phone.
     bnd (edit_prompt_and_validation ''Email address'' (email series) ''str'' False) (\<lambda>email.
     bnd (edit_prompt_and_validation ''Any Medical training?'' (has_medical_training series) ''bool'' False) (\<lambda>has_medical_training.
     bnd (edit_prompt_and_validation ''Know neighbors?'' (know_neighbors series) ''bool'' False) (\<lambda>know_neighbors.
     bnd (edit_prompt_and_validation ''Have neighbor's key?'' (has_neighbors_key series) ''bool'' False) (\<lambda>has_neighbors_key.
     bnd (edit_prompt_and_validation ''CERT newsletter?'' (wants_newsletter series) ''bool'' False) (\<lambda>wants_newsletter.
     bnd (edit_prompt_and_validation ''Allow CERT non-disaster contact?'' (can_cert_contact series) ''bool'' False) (\<lambda>can_cert_contact.
     ret
       \<lparr>address = address, adults = adults, children = children, pets = pets, dogs = dogs,
        critical_meds = critical_meds, meds_need_refrigerated = meds_need_refrigerated,
        has_special_needs = has_special_needs, has_propane_tank = has_propane_tank,
        has_natural_gas = has_natural_gas, phone = phone, email = email,
        has_medical_training = has_medical_training, know_neighbors = know_neighbors,
        has_neighbors_key = has_neighbors_key, wants_newsletter = wants_newsletter,
        can_cert_contact = can_cert_contact\<rparr>)))))))))))))))))"

datatype edit_result = Edited | RecordNotFound

definition edit_record ::
  "nat \<Rightarrow> string list \<Rightarrow> nat \<Rightarrow> household list
     \<Rightarrow> (py_exn + edit_result) \<times> household list \<times> string list" where
  "edit_record record_id lines now db =
     (case sql_select record_id db of
        None \<Rightarrow> (Inr RecordNotFound, db, lines)
      | Some edit_df \<Rightarrow>
          (case edit_prompts (data edit_df) lines of
             (Inl e, rest) \<Rightarrow> (Inl e, db, rest)
           | (Inr updated_record, rest) \<Rightarrow>
               (case sql_update record_id (map_fields native updated_record) now db of
                  Inl e \<Rightarrow> (Inl e, db, rest)
                | Inr db' \<Rightarrow> (Inr Edited, db', rest))))"

section \<open>Sessions\<close>

text \<open>
  The operations of the menu that write to the table, each with the clock reading it
  takes, and the table after a sequence of them starting from the empty table.
\<close>

datatype operation =
    Import dataframe nat
  | Add "string list" nat
  | Edit nat "string list" nat

fun apply_operation ::
  "(string \<Rightarrow> rat option) \<Rightarrow> household list \<Rightarrow> operation \<Rightarrow> household list" where
  "apply_operation numeric db (Import input_df now) = snd (import_csv numeric input_df now db)"
| "apply_operation numeric db (Add lines now) = fst (snd (add_record lines now db))"
| "apply_operation numeric db (Edit record_id lines now) =
     fst (snd (edit_record record_id lines now db))"

definition session :: "(string \<Rightarrow> rat option) \<Rightarrow> operation list \<Rightarrow> household list" where
  "session numeric ops = foldl (apply_operation numeric) [] ops"

section \<open>Specification-level notions\<close>




text \<open>A row that passes every check of \<^verbatim>\<open>import_csv\<close>, for the examples.\<close>

definition example_row :: "cell fields" where
  "example_row =
     \<lparr>address = Str ''1 A, B, ZZ 12345'', adults = Intg 2, children = Intg 0,
      pets = Str ''yes'', dogs = Str ''no'', critical_meds = Str ''no'',
      meds_need_refrigerated = NaN, has_special_needs = Str ''no'',
      has_propane_tank = Str ''no'', has_natural_gas = Str ''no'', phone = NaN, email = NaN,
      has_medical_training = NaN, know_neighbors = NaN, has_neighbors_key = NaN,
      wants_newsletter = NaN, can_cert_contact = NaN\<rparr>"

definition example_frame :: "cell fields list \<Rightarrow> dataframe" where
  "example_frame rs = \<lparr>columns = CSV_COLUMNS, rows = rs\<rparr>"



text \<open>
  What the checks of \<^verbatim>\<open>import_csv\<close> ask of one row: the three formats, the numeric
  coercion of adults and children, and the two conditional checks on the converted
  boolean columns. \<open>normalized\<close> is the row after coercion and conversion, and
  \<open>stored_form\<close> the values the table then holds for it.
\<close>

definition is_numeric :: "(string \<Rightarrow> rat option) \<Rightarrow> cell \<Rightarrow> bool" where
  "is_numeric numeric c = (case c of Str s \<Rightarrow> numeric s \<noteq> None | _ \<Rightarrow> True)"

definition numeric_cell :: "(string \<Rightarrow> rat option) \<Rightarrow> cell \<Rightarrow> cell" where
  "numeric_cell numeric c =
     (case c of Str s \<Rightarrow> (case numeric s of None \<Rightarrow> c | Some q \<Rightarrow> Flt q) | _ \<Rightarrow> c)"

definition convert_booleans :: "cell fields \<Rightarrow> cell fields" where
  "convert_booleans r =
     r\<lparr>pets := boolean_converter_cell (pets r), dogs := boolean_converter_cell (dogs r),
       critical_meds := boolean_converter_cell (critical_meds r),
       meds_need_refrigerated := boolean_converter_cell (meds_need_refrigerated r),
       has_special_needs := boolean_converter_cell (has_special_needs r),
       has_propane_tank := boolean_converter_cell (has_propane_tank r),
       has_natural_gas := boolean_converter_cell (has_natural_gas r),
       has_medical_training := boolean_converter_cell (has_medical_training r),
       know_neighbors := boolean_converter_cell (know_neighbors r),
       has_neighbors_key := boolean_converter_cell (has_neighbors_key r),
       wants_newsletter := boolean_converter_cell (wants_newsletter r),
       can_cert_contact := boolean_converter_cell (can_cert_contact r)\<rparr>"

definition normalized :: "(string \<Rightarrow> rat option) \<Rightarrow> cell fields \<Rightarrow> cell fields" where
  "normalized numeric r =
     convert_booleans
       (r\<lparr>adults := numeric_cell numeric (adults r),
          children := numeric_cell numeric (children r)\<rparr>)"

definition stored_form :: "(string \<Rightarrow> rat option) \<Rightarrow> cell fields \<Rightarrow> sqlval fields" where
  "stored_form numeric r = column_affinity (map_fields tolist_cell (normalized numeric r))"

definition columns_present :: "dataframe \<Rightarrow> bool" where
  "columns_present input_df = list_all (\<lambda>column. column \<in> set (columns input_df)) CSV_COLUMNS"

definition format_ok :: "cell fields \<Rightarrow> bool" where
  "format_ok r =
     (validate_address (address r) = Inr True \<and> validate_phone (phone r) = Inr True
      \<and> validate_email (email r) = Inr True)"

definition coercion_ok :: "(string \<Rightarrow> rat option) \<Rightarrow> cell fields \<Rightarrow> bool" where
  "coercion_ok numeric r = (is_numeric numeric (adults r) \<and> is_numeric numeric (children r))"

definition dogs_without_pets :: "cell fields \<Rightarrow> bool" where
  "dogs_without_pets r =
     (eq_zero (boolean_converter_cell (pets r)) \<and> notna (boolean_converter_cell (dogs r)))"

definition refrigerated_without_meds :: "cell fields \<Rightarrow> bool" where
  "refrigerated_without_meds r =
     (eq_zero (boolean_converter_cell (critical_meds r))
      \<and> notna (boolean_converter_cell (meds_need_refrigerated r)))"

definition earlier_stages_pass :: "(string \<Rightarrow> rat option) \<Rightarrow> dataframe \<Rightarrow> bool" where
  "earlier_stages_pass numeric input_df =
     (columns_present input_df
      \<and> list_all (\<lambda>r. format_ok r \<and> coercion_ok numeric r) (rows input_df))"

definition batch_passes :: "(string \<Rightarrow> rat option) \<Rightarrow> dataframe \<Rightarrow> bool" where
  "batch_passes numeric input_df =
     (earlier_stages_pass numeric input_df
      \<and> list_all (\<lambda>r. \<not> dogs_without_pets r \<and> \<not> refrigerated_without_meds r) (rows input_df))"

text \<open>
  The conditional invariant of a stored record: dogs is NULL when pets is 0, and
  meds_need_refrigerated is NULL when critical_meds is 0.
\<close>

definition conditional_invariant :: "household \<Rightarrow> bool" where
  "conditional_invariant h =
     ((pets (data h) = INTEGER 0 \<longrightarrow> dogs (data h) = NULL)
      \<and> (critical_meds (data h) = INTEGER 0 \<longrightarrow> meds_need_refrigerated (data h) = NULL))"


text \<open>
  Answers to the prompts of \<^verbatim>\<open>add_record\<close>: pets and critical meds are answered yes, and
  every prompt that is not mandatory is left blank. Answers to the prompts of
  \<^verbatim>\<open>edit_record\<close> for the record so added: a new address, everything else left blank.
\<close>

definition example_add_lines :: "string list" where
  "example_add_lines =
     [''1 A, B, ZZ 12345'', ''2'', ''0'', ''yes'', '''', ''y'', '''', ''no'', ''no'', ''no'',
      '''', '''', '''', '''', '''', '''', '''']"




section \<open>Boolean tokens\<close>

text \<open>
  C2: the converter trims and lower-cases a token and maps yes/y/true/1 to 1, no/n/false/0
  to 0, the empty string and "nan" to a missing value. For every other token the claim asks
  for a format error; the code gives the same missing value as for a blank, raises
  nothing, and the import goes on: a row whose dogs column holds "maybe" is stored with
  dogs NULL.
\<close>

theorem boolean_converter_unrecognised_token:
  "boolean_converter_cell (Str s) =
     (if py_lower (py_strip s) \<in> set [''yes'', ''y'', ''true'', ''1''] then Flt 1
      else if py_lower (py_strip s) \<in> set [''no'', ''n'', ''false'', ''0''] then Flt 0
      else NaN)
   \<and> boolean_converter [Str ''maybe'', Str '''', Str ''nan'', Str '' YES '', Str ''No'']
       = [NaN, NaN, NaN, Flt 1, Flt 0]
   \<and> fst (import_csv (\<lambda>_. None) (example_frame [example_row\<lparr>dogs := Str ''maybe''\<rparr>]) 100 [])
       = Imported
   \<and> map (\<lambda>h. dogs (data h))
        (snd (import_csv (\<lambda>_. None) (example_frame [example_row\<lparr>dogs := Str ''maybe''\<rparr>]) 100 []))
       = [NULL]"
proof -
  have general: "boolean_converter_cell (Str s) =
     (if py_lower (py_strip s) \<in> set [''yes'', ''y'', ''true'', ''1''] then Flt 1
      else if py_lower (py_strip s) \<in> set [''no'', ''n'', ''false'', ''0''] then Flt 0
      else NaN)"
    by (simp add: boolean_converter_cell_def astype_str_def series_map_def boolean_table_def)
  have tokens: "boolean_converter [Str ''maybe'', Str '''', Str ''nan'', Str '' YES '', Str ''No'']
       = [NaN, NaN, NaN, Flt 1, Flt 0]"
    by code_simp
  have imported:
    "fst (import_csv (\<lambda>_. None) (example_frame [example_row\<lparr>dogs := Str ''maybe''\<rparr>]) 100 [])
       = Imported"
    by code_simp
  have stored: "map (\<lambda>h. dogs (data h))
        (snd (import_csv (\<lambda>_. None) (example_frame [example_row\<lparr>dogs := Str ''maybe''\<rparr>]) 100 []))
       = [NULL]"
    by code_simp
  from general tokens imported stored show ?thesis by (intro conjI)
qed

section \<open>Patterns\<close>

























section \<open>Batch import\<close>

text \<open>
  The checks of \<^verbatim>\<open>import_csv\<close> run column by column; the lemmas below read them row by
  row.
\<close>

lemma collect_Inr_iff: "collect xs = Inr ys \<longleftrightarrow> xs = map Inr ys"
proof (induction xs arbitrary: ys)
  case Nil
  show ?case by auto
next
  case (Cons x xs)
  show ?case
  proof (cases x)
    case (Inl e)
    then show ?thesis by (cases ys) auto
  next
    case (Inr v)
    show ?thesis
    proof (cases "collect xs")
      case (Inl e)
      with Cons.IH have "\<And>zs. xs \<noteq> map Inr zs" by auto
      with Inl Inr show ?thesis by (cases ys) auto
    next
      case (Inr vs)
      with Cons.IH [of vs] have "xs = map Inr vs" by simp
      with Inr \<open>x = Inr v\<close> show ?thesis by (cases ys) auto
    qed
  qed
qed

lemma filter_enumerate_empty:
  "filter (\<lambda>(i, m, x). m) (enumerate n zs) = [] \<longleftrightarrow> (\<forall>(m, x) \<in> set zs. \<not> m)"
  by (induction zs arbitrary: n) auto

lemma select_rows_empty:
  "select_rows flags xs = [] \<longleftrightarrow> (\<forall>(m, x) \<in> set (zip flags xs). \<not> m)"
  by (simp add: select_rows_def filter_enumerate_empty)

lemma validation_stage:
  "series_apply f cs = Inr bs \<and> select_rows (map Not bs) cs = [] \<longleftrightarrow>
     bs = map (\<lambda>_. True) cs \<and> list_all (\<lambda>c. f c = Inr True) cs"
proof -
  have "map f cs = map Inr bs \<and> (\<forall>(m, x) \<in> set (zip (map Not bs) cs). \<not> m) \<longleftrightarrow>
     bs = map (\<lambda>_. True) cs \<and> list_all (\<lambda>c. f c = Inr True) cs"
  proof (induction cs arbitrary: bs)
    case Nil
    show ?case by auto
  next
    case (Cons c cs)
    show ?case using Cons.IH by (cases bs) auto
  qed
  then show ?thesis
    by (simp add: series_apply_def collect_Inr_iff select_rows_empty)
qed

lemma to_numeric_cell:
  "(case c of
      Str s \<Rightarrow> (case numeric s of None \<Rightarrow> Inl ValueError | Some q \<Rightarrow> Inr (Flt q))
    | _ \<Rightarrow> Inr c) = Inr y \<longleftrightarrow> is_numeric numeric c \<and> y = numeric_cell numeric c"
  by (auto simp: is_numeric_def numeric_cell_def split: cell.splits option.splits)

lemma to_numeric_Inr:
  "to_numeric numeric cs = Inr ys \<longleftrightarrow>
     list_all (is_numeric numeric) cs \<and> ys = map (numeric_cell numeric) cs"
  unfolding to_numeric_def collect_Inr_iff
proof (induction cs arbitrary: ys)
  case Nil
  show ?case by auto
next
  case (Cons c cs)
  show ?case
  proof (cases ys)
    case Nil
    then show ?thesis by simp
  next
    case (Cons y ys')
    then show ?thesis using Cons.IH [of ys'] to_numeric_cell [of c numeric y]
      by simp blast
  qed
qed

lemma col_get_simp: "col_get df (g, u) = map g df"
  by (simp add: col_get_def)

lemma col_set_map_map:
  "col_set (map F df) (g, u) (map K df) = map (\<lambda>r. u (\<lambda>_. K r) (F r)) df"
  unfolding col_set_def by (induction df) auto

lemma col_set_map: "col_set df (g, u) (map K df) = map (\<lambda>r. u (\<lambda>_. K r) r) df"
  using col_set_map_map [of "\<lambda>r. r" df g u K] by simp

lemma boolean_columns:
  "foldl (\<lambda>df column. col_set df column (boolean_converter (col_get df column))) df boolean_data
     = map convert_booleans df"
  by (simp add: boolean_data_def col_get_simp boolean_converter_def col_set_map col_set_map_map
      convert_booleans_def comp_def)

lemma stage_passes:
  assumes "list_all (\<lambda>c. f c = Inr True) cs"
  shows "series_apply f cs = Inr (map (\<lambda>_. True) cs)"
    and "select_rows (map Not (map (\<lambda>_. True) cs)) cs = []"
  using assms validation_stage [of f cs "map (\<lambda>_. True) cs"] by auto

lemma stage_passed:
  assumes "series_apply f cs = Inr bs" and "select_rows (map Not bs) cs = []"
  shows "list_all (\<lambda>c. f c = Inr True) cs"
  using assms validation_stage [of f cs bs] by auto

lemma select_rows_map_empty:
  "select_rows (map P xs) (map Q xs) = [] \<longleftrightarrow> list_all (\<lambda>x. \<not> P x) xs"
  unfolding select_rows_empty by (induction xs) auto

lemma missing_columns_empty:
  "filter (\<lambda>column. column \<notin> set (columns input_df)) CSV_COLUMNS = [] \<longleftrightarrow>
     columns_present input_df"
  by (auto simp: columns_present_def filter_empty_conv list_all_iff)

lemma normalized_fields:
  "pets (normalized numeric r) = boolean_converter_cell (pets r)"
  "dogs (normalized numeric r) = boolean_converter_cell (dogs r)"
  "critical_meds (normalized numeric r) = boolean_converter_cell (critical_meds r)"
  "meds_need_refrigerated (normalized numeric r) = boolean_converter_cell (meds_need_refrigerated r)"
  "adults (normalized numeric r) = numeric_cell numeric (adults r)"
  "children (normalized numeric r) = numeric_cell numeric (children r)"
  "address (normalized numeric r) = address r"
  by (simp_all add: normalized_def convert_booleans_def)

lemma coerced_frame:
  "foldl (\<lambda>df column. col_set df column (boolean_converter (col_get df column)))
     (col_set (col_set df (adults, adults_update) (map (numeric_cell numeric) (map adults df)))
        (children, children_update) (map (numeric_cell numeric) (map children df)))
     boolean_data
   = map (normalized numeric) df"
  by (simp add: boolean_columns col_set_map col_set_map_map comp_def normalized_def)

lemma import_csv_conditional:
  assumes "earlier_stages_pass numeric input_df"
  shows "import_csv numeric input_df time_stamp db =
     (if select_rows
           (map (\<lambda>r. eq_zero (pets r) \<and> notna (dogs r)) (map (normalized numeric) (rows input_df)))
           (map (\<lambda>r. (pets r, dogs r)) (map (normalized numeric) (rows input_df))) \<noteq> []
      then (DogsButNoPets
              (select_rows
                 (map (\<lambda>r. eq_zero (pets r) \<and> notna (dogs r))
                    (map (normalized numeric) (rows input_df)))
                 (map (\<lambda>r. (pets r, dogs r)) (map (normalized numeric) (rows input_df)))), db)
      else if select_rows
           (map (\<lambda>r. eq_zero (critical_meds r) \<and> notna (meds_need_refrigerated r))
              (map (normalized numeric) (rows input_df)))
           (map (\<lambda>r. (critical_meds r, meds_need_refrigerated r))
              (map (normalized numeric) (rows input_df))) \<noteq> []
      then (RefrigeratedButNoMeds
              (select_rows
                 (map (\<lambda>r. eq_zero (critical_meds r) \<and> notna (meds_need_refrigerated r))
                    (map (normalized numeric) (rows input_df)))
                 (map (\<lambda>r. (critical_meds r, meds_need_refrigerated r))
                    (map (normalized numeric) (rows input_df)))), db)
      else (case executemany (map (map_fields tolist_cell) (map (normalized numeric) (rows input_df)))
                   time_stamp db of
              Inl e \<Rightarrow> (Uncaught e, db)
            | Inr db' \<Rightarrow> (Imported, db')))"
proof -
  let ?df = "rows input_df"
  from assms have cols: "filter (\<lambda>column. column \<notin> set (columns input_df)) CSV_COLUMNS = []"
    by (simp add: earlier_stages_pass_def missing_columns_empty)
  from assms have fmt: "list_all (\<lambda>c. validate_address c = Inr True) (map address ?df)"
    "list_all (\<lambda>c. validate_phone c = Inr True) (map phone ?df)"
    "list_all (\<lambda>c. validate_email c = Inr True) (map email ?df)"
    by (simp_all add: earlier_stages_pass_def format_ok_def list_all_iff)
  from assms have num:
    "to_numeric numeric (map adults ?df) = Inr (map (numeric_cell numeric) (map adults ?df))"
    "to_numeric numeric (map children ?df) = Inr (map (numeric_cell numeric) (map children ?df))"
    by (simp_all add: earlier_stages_pass_def coercion_ok_def to_numeric_Inr list_all_iff)
  have children_col: "map children (col_set ?df (adults, adults_update)
       (map (numeric_cell numeric) (map adults ?df))) = map children ?df"
    by (simp add: col_set_map comp_def)
  show ?thesis
    unfolding import_csv_def Let_def col_get_simp
    by (simp only: cols stage_passes [OF fmt(1)] stage_passes [OF fmt(2)]
        stage_passes [OF fmt(3)] num children_col coerced_frame
        if_True if_False sum.case simp_thms)
qed

lemma import_csv_passes:
  assumes "batch_passes numeric input_df"
  shows "import_csv numeric input_df time_stamp db =
     (case executemany (map (map_fields tolist_cell) (map (normalized numeric) (rows input_df)))
             time_stamp db of
        Inl e \<Rightarrow> (Uncaught e, db)
      | Inr db' \<Rightarrow> (Imported, db'))"
proof -
  from assms have early: "earlier_stages_pass numeric input_df"
    by (simp add: batch_passes_def)
  from assms have cond:
    "select_rows (map (\<lambda>r. eq_zero (pets r) \<and> notna (dogs r)) (map (normalized numeric) (rows input_df)))
       (map (\<lambda>r. (pets r, dogs r)) (map (normalized numeric) (rows input_df))) = []"
    "select_rows
       (map (\<lambda>r. eq_zero (critical_meds r) \<and> notna (meds_need_refrigerated r))
          (map (normalized numeric) (rows input_df)))
       (map (\<lambda>r. (critical_meds r, meds_need_refrigerated r))
          (map (normalized numeric) (rows input_df))) = []"
    by (simp_all add: select_rows_map_empty batch_passes_def list_all_iff normalized_fields
        dogs_without_pets_def refrigerated_without_meds_def)
  show ?thesis
    by (simp only: import_csv_conditional [OF early] cond if_False simp_thms)
qed

lemma import_csv_unchanged:
  "fst (import_csv numeric input_df time_stamp db) \<noteq> Imported \<Longrightarrow>
     snd (import_csv numeric input_df time_stamp db) = db"
  unfolding import_csv_def Let_def
  by (simp split: sum.splits if_splits)

lemma import_csv_Imported_D:
  "fst (import_csv numeric input_df time_stamp db) = Imported \<Longrightarrow> batch_passes numeric input_df"
  unfolding import_csv_def Let_def col_get_simp
  by (auto simp: to_numeric_Inr missing_columns_empty batch_passes_def earlier_stages_pass_def
      format_ok_def coercion_ok_def list_all_iff select_rows_map_empty
      col_set_map col_set_map_map boolean_columns convert_booleans_def
      dogs_without_pets_def refrigerated_without_meds_def comp_def
      split: sum.splits if_splits dest!: stage_passed)

lemma select_rows_member:
  assumes "k < length xs" and "P (xs ! k)"
  shows "(k, Q (xs ! k)) \<in> set (select_rows (map P xs) (map Q xs))"
proof -
  from assms have "(k, P (xs ! k), Q (xs ! k)) \<in> set (enumerate 0 (zip (map P xs) (map Q xs)))"
    by (simp add: in_set_enumerate_eq)
  with assms(2) show ?thesis
    unfolding select_rows_def by force
qed

lemma sql_insert_Inr:
  "sql_insert vals c u db = Inr db' \<Longrightarrow>
     db' = db @ [\<lparr>rec_id = next_id db, data = column_affinity vals, created_at = c, updated_at = u\<rparr>]
     \<and> not_null_ok (column_affinity vals)"
  by (auto simp: sql_insert_def split: if_splits)

lemma executemany_Inr:
  "executemany rs t db = Inr db' \<Longrightarrow>
     \<exists>new. db' = db @ new \<and> map data new = map column_affinity rs
       \<and> list_all (\<lambda>h. created_at h = t \<and> updated_at h = t) new"
proof (induction rs arbitrary: db)
  case Nil
  then show ?case by simp
next
  case (Cons r rs)
  from Cons.prems obtain db1 where ins: "sql_insert r t t db = Inr db1"
    and rest: "executemany rs t db1 = Inr db'"
    by (auto split: sum.splits)
  from sql_insert_Inr [OF ins] obtain h where db1: "db1 = db @ [h]" and h: "data h = column_affinity r"
    "created_at h = t" "updated_at h = t"
    by auto
  from Cons.IH [OF rest] obtain new where new: "db' = db1 @ new"
    "map data new = map column_affinity rs"
    "list_all (\<lambda>h. created_at h = t \<and> updated_at h = t) new"
    by blast
  from db1 new h have "db' = db @ (h # new) \<and> map data (h # new) = map column_affinity (r # rs)
       \<and> list_all (\<lambda>h. created_at h = t \<and> updated_at h = t) (h # new)"
    by simp
  then show ?case by blast
qed

lemma import_csv_Imported_rows:
  assumes "fst (import_csv numeric input_df now db) = Imported"
  shows "\<exists>new. snd (import_csv numeric input_df now db) = db @ new
           \<and> map data new = map (stored_form numeric) (rows input_df)
           \<and> list_all (\<lambda>h. created_at h = now \<and> updated_at h = now) new"
proof -
  from assms have "batch_passes numeric input_df"
    by (rule import_csv_Imported_D)
  note eq = import_csv_passes [OF this, of now db]
  with assms obtain db' where
    ex: "executemany (map (map_fields tolist_cell) (map (normalized numeric) (rows input_df))) now db
           = Inr db'"
    and res: "import_csv numeric input_df now db = (Imported, db')"
    by (auto split: sum.splits)
  from executemany_Inr [OF ex] res show ?thesis
    by (auto simp: stored_form_def comp_def)
qed



lemma converted_no_yes:
  "boolean_converter_cell (Str ''no'') = Flt 0" "boolean_converter_cell (Str ''yes'') = Flt 1"
  by code_simp+

text \<open>
  C8: a batch with a row that has pets = no and dogs = yes is never stored: the result is
  not \<open>Imported\<close> and the table is unchanged. When the batch gets as far as the
  conditional checks, the result is the report \<open>DogsButNoPets\<close>, and the report holds the
  index of that row with its pair (pets = 0, dogs = 1).
\<close>

theorem import_pets_no_dogs_yes:
  assumes "k < length (rows input_df)"
    and "pets (rows input_df ! k) = Str ''no''"
    and "dogs (rows input_df ! k) = Str ''yes''"
  shows "fst (import_csv numeric input_df now db) \<noteq> Imported
    \<and> snd (import_csv numeric input_df now db) = db
    \<and> (earlier_stages_pass numeric input_df \<longrightarrow>
         (\<exists>report. fst (import_csv numeric input_df now db) = DogsButNoPets report
            \<and> (k, Flt 0, Flt 1) \<in> set report))"
proof -
  let ?r = "rows input_df ! k"
  from assms(2,3) have viol: "dogs_without_pets ?r"
    by (simp add: dogs_without_pets_def converted_no_yes eq_zero_def notna_def)
  from assms(1) have mem: "?r \<in> set (rows input_df)"
    by simp
  with viol have "\<not> batch_passes numeric input_df"
    by (auto simp: batch_passes_def list_all_iff)
  then have no: "fst (import_csv numeric input_df now db) \<noteq> Imported"
    using import_csv_Imported_D by blast
  then have same: "snd (import_csv numeric input_df now db) = db"
    by (rule import_csv_unchanged)
  have report: "\<exists>report. fst (import_csv numeric input_df now db) = DogsButNoPets report
            \<and> (k, Flt 0, Flt 1) \<in> set report"
    if early: "earlier_stages_pass numeric input_df"
  proof -
    let ?df = "map (normalized numeric) (rows input_df)"
    let ?report = "select_rows (map (\<lambda>r. eq_zero (pets r) \<and> notna (dogs r)) ?df)
        (map (\<lambda>r. (pets r, dogs r)) ?df)"
    from assms(1) have k: "k < length ?df"
      by simp
    from viol assms(1) have "eq_zero (pets (?df ! k)) \<and> notna (dogs (?df ! k))"
      by (simp add: dogs_without_pets_def normalized_fields)
    from select_rows_member [OF k, of "\<lambda>r. eq_zero (pets r) \<and> notna (dogs r)", OF this]
    have "(k, pets (?df ! k), dogs (?df ! k)) \<in> set ?report" .
    with assms have in_report: "(k, Flt 0, Flt 1) \<in> set ?report"
      by (simp add: normalized_fields converted_no_yes)
    then have "?report \<noteq> []"
      by auto
    then have "fst (import_csv numeric input_df now db) = DogsButNoPets ?report"
      by (simp add: import_csv_conditional [OF early])
    with in_report show ?thesis
      by blast
  qed
  from no same report show ?thesis
    by blast
qed

text \<open>An instance: the second row of a batch of two.\<close>

theorem import_pets_no_dogs_yes_witness:
  "earlier_stages_pass (\<lambda>_. None)
     (example_frame [example_row, example_row\<lparr>pets := Str ''no'', dogs := Str ''yes''\<rparr>])
   \<and> snd (import_csv (\<lambda>_. None)
        (example_frame [example_row, example_row\<lparr>pets := Str ''no'', dogs := Str ''yes''\<rparr>])
        100 []) = []
   \<and> (\<exists>report. fst (import_csv (\<lambda>_. None)
        (example_frame [example_row, example_row\<lparr>pets := Str ''no'', dogs := Str ''yes''\<rparr>])
        100 []) = DogsButNoPets report \<and> (1, Flt 0, Flt 1) \<in> set report)"
proof -
  let ?f = "example_frame [example_row, example_row\<lparr>pets := Str ''no'', dogs := Str ''yes''\<rparr>]"
  have early: "earlier_stages_pass (\<lambda>_. None) ?f"
    by code_simp
  have k: "1 < length (rows ?f)" "pets (rows ?f ! 1) = Str ''no''" "dogs (rows ?f ! 1) = Str ''yes''"
    by (simp_all add: example_frame_def)
  from import_pets_no_dogs_yes [OF k, of "\<lambda>_. None" 100 "[]"] early show ?thesis
    by blast
qed




text \<open>
  C5: the batch path stores counts that are not non-negative integers. A row with adults
  = -3 and a row with children = 2.5 pass \<^verbatim>\<open>pd.to_numeric\<close> and are stored as they are.
\<close>

theorem import_stores_negative_and_fractional_counts:
  "(case import_csv (\<lambda>_. None)
       (example_frame [example_row\<lparr>adults := Intg (- 3)\<rparr>, example_row\<lparr>children := Flt (5 / 2)\<rparr>])
       100 [] of
      (result, db') \<Rightarrow>
        result = Imported
        \<and> map (\<lambda>h. (adults (data h), children (data h))) db'
            = [(INTEGER (- 3), INTEGER 0), (INTEGER 2, REAL (5 / 2))])"
  by code_simp

text \<open>
  C6: a row with a blank mandatory field is not rejected by a check. With pets blank the
  batch passes every stage and reaches \<^verbatim>\<open>executemany\<close>, where the NOT NULL constraint
  raises IntegrityError; with the address blank \<^verbatim>\<open>validate_address\<close> raises TypeError.
  Neither exception is caught. The table is unchanged in both cases.
\<close>

theorem import_missing_mandatory_field_reaches_storage:
  "batch_passes (\<lambda>_. None) (example_frame [example_row\<lparr>pets := NaN\<rparr>])
   \<and> import_csv (\<lambda>_. None) (example_frame [example_row\<lparr>pets := NaN\<rparr>]) 100 []
       = (Uncaught IntegrityError, [])
   \<and> import_csv (\<lambda>_. None) (example_frame [example_row\<lparr>address := NaN\<rparr>]) 100 []
       = (Uncaught TypeError, [])"
proof -
  have a: "batch_passes (\<lambda>_. None) (example_frame [example_row\<lparr>pets := NaN\<rparr>])"
    by code_simp
  have b: "import_csv (\<lambda>_. None) (example_frame [example_row\<lparr>pets := NaN\<rparr>]) 100 []
       = (Uncaught IntegrityError, [])"
    by code_simp
  have c: "import_csv (\<lambda>_. None) (example_frame [example_row\<lparr>address := NaN\<rparr>]) 100 []
       = (Uncaught TypeError, [])"
    by code_simp
  from a b c show ?thesis by (intro conjI)
qed

section \<open>Interactive add and edit\<close>

text \<open>What a sequence of prompts returns, read off one prompt at a time.\<close>

lemma bnd_Inr:
  "bnd m f lines = (Inr y, rest) \<longleftrightarrow> (\<exists>x mid. m lines = (Inr x, mid) \<and> f x mid = (Inr y, rest))"
  by (auto simp: bnd_def split: prod.splits sum.splits)

lemma ret_Inr: "ret x lines = (Inr y, rest) \<longleftrightarrow> y = x \<and> rest = lines"
  by (auto simp: ret_def)

lemma bnd_InrE:
  assumes "bnd m f lines = (Inr y, rest)"
  obtains x mid where "m lines = (Inr x, mid)" and "f x mid = (Inr y, rest)"
  using assms by (auto simp: bnd_Inr)

lemma add_prompts_conditional:
  assumes "add_prompts lines = (Inr r, rest)"
  shows "(\<not> py_eq_one (pets r) \<longrightarrow> dogs r = NULL)
    \<and> (\<not> py_eq_one (critical_meds r) \<longrightarrow> meds_need_refrigerated r = NULL)"
  using assms unfolding add_prompts_def
  by (elim bnd_InrE) (simp add: ret_Inr split: if_splits)

lemma edit_prompts_conditional:
  assumes "edit_prompts series lines = (Inr r, rest)"
  shows "(\<not> py_eq_one (pets r) \<longrightarrow> dogs r = NULL)
    \<and> (\<not> py_eq_one (critical_meds r) \<longrightarrow> meds_need_refrigerated r = NULL)"
  using assms unfolding edit_prompts_def
  by (elim bnd_InrE) (simp add: ret_Inr split: if_splits)

lemma boolean_converter_cell_range:
  "boolean_converter_cell c = Flt 1 \<or> boolean_converter_cell c = Flt 0
     \<or> boolean_converter_cell c = NaN"
  by (auto simp: boolean_converter_cell_def series_map_def boolean_table_def
      split: option.splits if_splits)

lemma stored_form_fields:
  "pets (stored_form numeric r) = integer_affinity (tolist_cell (boolean_converter_cell (pets r)))"
  "dogs (stored_form numeric r) = integer_affinity (tolist_cell (boolean_converter_cell (dogs r)))"
  "critical_meds (stored_form numeric r)
     = integer_affinity (tolist_cell (boolean_converter_cell (critical_meds r)))"
  "meds_need_refrigerated (stored_form numeric r)
     = integer_affinity (tolist_cell (boolean_converter_cell (meds_need_refrigerated r)))"
  by (simp_all add: stored_form_def column_affinity_def map_fields_def normalized_fields)

lemma stored_zero:
  "integer_affinity (tolist_cell (boolean_converter_cell c)) = INTEGER 0 \<Longrightarrow>
     eq_zero (boolean_converter_cell c)"
  using boolean_converter_cell_range [of c]
  by (auto simp: integer_affinity_def tolist_cell_def eq_zero_def)

lemma stored_form_invariant:
  assumes "\<not> dogs_without_pets r" and "\<not> refrigerated_without_meds r"
  shows "(pets (stored_form numeric r) = INTEGER 0 \<longrightarrow> dogs (stored_form numeric r) = NULL)
    \<and> (critical_meds (stored_form numeric r) = INTEGER 0 \<longrightarrow>
         meds_need_refrigerated (stored_form numeric r) = NULL)"
  using assms stored_zero [of "pets r"] stored_zero [of "critical_meds r"]
  by (auto simp: stored_form_fields dogs_without_pets_def refrigerated_without_meds_def
      notna_def integer_affinity_def tolist_cell_def)

lemma affinity_native_zero: "integer_affinity (native v) = INTEGER 0 \<Longrightarrow> \<not> py_eq_one v"
  by (auto simp: integer_affinity_def native_def pd_isna_def py_eq_one_def
      split: sqlval.splits if_splits)

lemma prompted_fields:
  "pets (column_affinity (map_fields native r)) = integer_affinity (native (pets r))"
  "dogs (column_affinity (map_fields native r)) = integer_affinity (native (dogs r))"
  "critical_meds (column_affinity (map_fields native r))
     = integer_affinity (native (critical_meds r))"
  "meds_need_refrigerated (column_affinity (map_fields native r))
     = integer_affinity (native (meds_need_refrigerated r))"
  by (simp_all add: column_affinity_def map_fields_def)

lemma prompted_invariant:
  assumes "(\<not> py_eq_one (pets r) \<longrightarrow> dogs r = NULL)
    \<and> (\<not> py_eq_one (critical_meds r) \<longrightarrow> meds_need_refrigerated r = NULL)"
  shows "conditional_invariant
     (h\<lparr>data := column_affinity (map_fields native r), updated_at := u\<rparr>)"
  using assms affinity_native_zero [of "pets r"] affinity_native_zero [of "critical_meds r"]
  by (auto simp: conditional_invariant_def prompted_fields integer_affinity_def native_def
      pd_isna_def)

lemma import_preserves:
  assumes "list_all conditional_invariant db"
  shows "list_all conditional_invariant (snd (import_csv numeric input_df now db))"
proof (cases "fst (import_csv numeric input_df now db) = Imported")
  case False
  with assms show ?thesis
    by (simp add: import_csv_unchanged)
next
  case True
  then have pass: "batch_passes numeric input_df"
    by (rule import_csv_Imported_D)
  from import_csv_Imported_rows [OF True] obtain new where
    new: "snd (import_csv numeric input_df now db) = db @ new"
      "map data new = map (stored_form numeric) (rows input_df)"
    by blast
  have "conditional_invariant h" if "h \<in> set new" for h
  proof -
    from that have "data h \<in> set (map data new)"
      by simp
    with new(2) obtain r where r: "r \<in> set (rows input_df)" "data h = stored_form numeric r"
      by auto
    with pass have "\<not> dogs_without_pets r" "\<not> refrigerated_without_meds r"
      by (auto simp: batch_passes_def list_all_iff)
    from stored_form_invariant [OF this, of numeric] r(2) show ?thesis
      by (simp add: conditional_invariant_def)
  qed
  with assms new(1) show ?thesis
    by (simp add: list_all_iff) blast
qed

lemma add_record_disj:
  "fst (snd (add_record lines now db)) = db
   \<or> (\<exists>r rest. add_prompts lines = (Inr r, rest)
        \<and> fst (snd (add_record lines now db))
            = db @ [\<lparr>rec_id = next_id db, data = column_affinity (map_fields native r),
                     created_at = now, updated_at = now\<rparr>])"
  by (auto simp: add_record_def sql_insert_def split: prod.splits sum.splits if_splits)

lemma add_record_cases:
  obtains (same) "fst (snd (add_record lines now db)) = db"
  | (added) r rest where "add_prompts lines = (Inr r, rest)"
      and "fst (snd (add_record lines now db))
            = db @ [\<lparr>rec_id = next_id db, data = column_affinity (map_fields native r),
                     created_at = now, updated_at = now\<rparr>]"
  using add_record_disj [of lines now db]
  by (elim disjE exE conjE) (rule same, assumption, rule added, assumption, assumption)

lemma edit_record_disj:
  "fst (snd (edit_record record_id lines now db)) = db
   \<or> (\<exists>old r rest. sql_select record_id db = Some old
        \<and> edit_prompts (data old) lines = (Inr r, rest)
        \<and> fst (snd (edit_record record_id lines now db))
            = map (\<lambda>h. if rec_id h = record_id
                        then h\<lparr>data := column_affinity (map_fields native r), updated_at := now\<rparr>
                        else h) db)"
  by (auto simp: edit_record_def sql_update_def
      split: prod.splits sum.splits if_splits option.splits)

lemma edit_record_cases:
  obtains (same) "fst (snd (edit_record record_id lines now db)) = db"
  | (edited) old r rest where "sql_select record_id db = Some old"
      and "edit_prompts (data old) lines = (Inr r, rest)"
      and "fst (snd (edit_record record_id lines now db))
            = map (\<lambda>h. if rec_id h = record_id
                        then h\<lparr>data := column_affinity (map_fields native r), updated_at := now\<rparr>
                        else h) db"
  using edit_record_disj [of record_id lines now db]
  by (elim disjE exE conjE)
    (rule same, assumption, rule edited, assumption, assumption, assumption)

lemma add_preserves:
  assumes "list_all conditional_invariant db"
  shows "list_all conditional_invariant (fst (snd (add_record lines now db)))"
proof (cases rule: add_record_cases [of lines now db])
  case same
  with assms show ?thesis by simp
next
  case (added r rest)
  from prompted_invariant [OF add_prompts_conditional [OF added(1)],
      where h = "\<lparr>rec_id = next_id db, data = undefined, created_at = now, updated_at = now\<rparr>"
        and u = now]
  have "conditional_invariant \<lparr>rec_id = next_id db, data = column_affinity (map_fields native r),
                   created_at = now, updated_at = now\<rparr>"
    by simp
  with assms added(2) show ?thesis by simp
qed

lemma edit_preserves:
  assumes "list_all conditional_invariant db"
  shows "list_all conditional_invariant (fst (snd (edit_record record_id lines now db)))"
proof (cases rule: edit_record_cases [of record_id lines now db])
  case same
  with assms show ?thesis by simp
next
  case (edited old r rest)
  note inv = prompted_invariant [OF edit_prompts_conditional [OF edited(2)]]
  from assms show ?thesis
    unfolding edited(3) by (auto simp: list_all_iff inv)
qed

lemma apply_operation_preserves:
  "list_all conditional_invariant db \<Longrightarrow>
     list_all conditional_invariant (apply_operation numeric db op)"
  by (cases op) (simp_all add: import_preserves add_preserves edit_preserves)

lemma foldl_preserves:
  "list_all conditional_invariant db \<Longrightarrow>
     list_all conditional_invariant (foldl (apply_operation numeric) db ops)"
  by (induction ops arbitrary: db) (simp_all add: apply_operation_preserves)

text \<open>
  C1: every operation that writes to the table keeps the conditional invariant of every
  stored record, so it holds in every table that a sequence of imports, adds and edits
  builds from the empty table: dogs is NULL when pets is 0, and meds_need_refrigerated is
  NULL when critical_meds is 0.
\<close>

theorem conditional_invariant_holds:
  "(list_all conditional_invariant db \<longrightarrow>
      list_all conditional_invariant (apply_operation numeric db op))
   \<and> list_all conditional_invariant (session numeric ops)"
  by (simp add: apply_operation_preserves session_def foldl_preserves)

section \<open>Update\<close>










section \<open>Examples of stored records\<close>

text \<open>
  An instance of C1: a row imported with pets = no, a record added with pets = yes and
  dogs left blank, and an edit of that record that answers pets = no. Both stored records
  end with pets 0 and dogs NULL.
\<close>

theorem conditional_invariant_holds_witness:
  "list_all conditional_invariant
     (session (\<lambda>_. None)
        [Import (example_frame [example_row\<lparr>pets := Str ''no'', dogs := NaN\<rparr>]) 100,
         Add example_add_lines 101])
   \<and> list_all conditional_invariant
       (apply_operation (\<lambda>_. None)
          (session (\<lambda>_. None)
             [Import (example_frame [example_row\<lparr>pets := Str ''no'', dogs := NaN\<rparr>]) 100,
              Add example_add_lines 101])
          (Edit 2 ['''', '''', '''', ''no'', '''', '''', '''', '''', '''', '''', '''', '''', '''',
                   '''', '''', ''''] 102))
   \<and> map (\<lambda>h. (pets (data h), dogs (data h)))
       (apply_operation (\<lambda>_. None)
          (session (\<lambda>_. None)
             [Import (example_frame [example_row\<lparr>pets := Str ''no'', dogs := NaN\<rparr>]) 100,
              Add example_add_lines 101])
          (Edit 2 ['''', '''', '''', ''no'', '''', '''', '''', '''', '''', '''', '''', '''', '''',
                   '''', '''', ''''] 102))
     = [(INTEGER 0, NULL), (INTEGER 0, NULL)]"
proof -
  let ?A = "[Import (example_frame [example_row\<lparr>pets := Str ''no'', dogs := NaN\<rparr>]) 100,
         Add example_add_lines 101]"
  let ?E = "Edit 2 ['''', '''', '''', ''no'', '''', '''', '''', '''', '''', '''', '''', '''', '''',
                   '''', '''', ''''] 102"
  have stored: "map (\<lambda>h. (pets (data h), dogs (data h)))
       (apply_operation (\<lambda>_. None) (session (\<lambda>_. None) ?A) ?E)
     = [(INTEGER 0, NULL), (INTEGER 0, NULL)]"
    by code_simp
  from conditional_invariant_holds [where db = "session (\<lambda>_. None) ?A" and numeric = "\<lambda>_. None"
      and op = ?E and ops = ?A]
  have "list_all conditional_invariant (session (\<lambda>_. None) ?A)
    \<and> list_all conditional_invariant (apply_operation (\<lambda>_. None) (session (\<lambda>_. None) ?A) ?E)"
    by blast
  with stored show ?thesis
    by blast
qed

section \<open>Blank answers on the add path\<close>















end
